theory Spec2Isabelle
  imports Main "HOL-Library.Monad_Syntax"
begin

section \<open>Go strings and the functions of package strings that prepare.go calls\<close>

text \<open>
  A Go string is a sequence of bytes, so it is modelled as \<open>string\<close> (a list of 8-bit
  \<open>char\<close>); a rune beyond ASCII is the two to four bytes of its UTF-8 encoding.
  A run-time panic (index out of range) is the value \<open>None\<close> of an option type.
\<close>

definition idx :: "'a list \<Rightarrow> nat \<Rightarrow> 'a option" where
  \<comment> \<open>\<open>xs[i]\<close>: panics when \<open>i\<close> is out of range.\<close>
  "idx xs i = (if i < length xs then Some (xs ! i) else None)"

definition lookup0 :: "('k \<rightharpoonup> 'v list) \<Rightarrow> 'k \<Rightarrow> 'v list" where
  \<comment> \<open>\<open>m[k]\<close> for a map of slices: the nil slice when the key is missing.\<close>
  "lookup0 m k = (case m k of None \<Rightarrow> [] | Some v \<Rightarrow> v)"

fun for_range :: "('s \<Rightarrow> 'a \<Rightarrow> 's option) \<Rightarrow> 's \<Rightarrow> 'a list \<Rightarrow> 's option" where
  \<comment> \<open>\<open>for _, v := range xs { body }\<close> over the loop's local variables \<open>'s\<close>;
      a panic in the body ends the loop.\<close>
  "for_range body s [] = Some s"
| "for_range body s (v # vs) =
     (case body s v of None \<Rightarrow> None | Some s' \<Rightarrow> for_range body s' vs)"

definition HasPrefix :: "string \<Rightarrow> string \<Rightarrow> bool" where
  "HasPrefix s p = (take (length p) s = p)"

definition HasSuffix :: "string \<Rightarrow> string \<Rightarrow> bool" where
  "HasSuffix s p = (length p \<le> length s \<and> drop (length s - length p) s = p)"

fun Index :: "string \<Rightarrow> string \<Rightarrow> nat option" where
  \<comment> \<open>\<open>strings.Index\<close>: the first position of \<open>sep\<close>; \<open>None\<close> is Go's -1.\<close>
  "Index [] sep = (if sep = [] then Some 0 else None)"
| "Index (c # cs) sep =
     (if HasPrefix (c # cs) sep then Some 0 else map_option Suc (Index cs sep))"

definition Contains :: "string \<Rightarrow> string \<Rightarrow> bool" where
  "Contains s sep = (Index s sep \<noteq> None)"

lemma HasPrefix_length: "HasPrefix s p \<Longrightarrow> length p \<le> length s"
proof -
  assume "HasPrefix s p"
  then have "length (take (length p) s) = length p"
    by (simp add: HasPrefix_def)
  then show ?thesis by simp
qed

lemma Index_bound: "Index s sep = Some i \<Longrightarrow> i + length sep \<le> length s"
proof (induction s arbitrary: i)
  case Nil
  then show ?case by (simp split: if_splits)
next
  case (Cons c cs)
  show ?case
  proof (cases "HasPrefix (c # cs) sep")
    case True
    then have "length sep \<le> length (c # cs)"
      by (rule HasPrefix_length)
    with True Cons.prems show ?thesis by simp
  next
    case False
    with Cons.prems obtain j where "Index cs sep = Some j" "i = Suc j" by auto
    with Cons.IH show ?thesis by simp
  qed
qed

function Split :: "string \<Rightarrow> string \<Rightarrow> string list" where
  \<comment> \<open>\<open>strings.Split(s, sep)\<close> as genSplit computes it: cut at each occurrence of
      \<open>sep\<close>, left to right. Every call site passes a non-empty \<open>sep\<close>; for the empty one
      (Go explodes into runes) the model returns \<open>[s]\<close>.\<close>
  "Split s sep =
     (if sep = [] then [s]
      else case Index s sep of
             None \<Rightarrow> [s]
           | Some i \<Rightarrow> take i s # Split (drop (i + length sep) s) sep)"
  by pat_completeness auto
termination
proof (relation "measure (\<lambda>(s, sep). length s)")
  show "wf (measure (\<lambda>(s, sep). length s))" by simp
next
  fix s sep :: string and i
  assume "sep \<noteq> []" "Index s sep = Some i"
  then have "0 < length sep" "i + length sep \<le> length s"
    using Index_bound by auto
  then show "((drop (i + length sep) s, sep), (s, sep)) \<in> measure (\<lambda>(s, sep). length s)"
    by (cases sep) auto
qed

declare Split.simps [simp del]

definition SplitN2 :: "string \<Rightarrow> string \<Rightarrow> string list" where
  \<comment> \<open>\<open>strings.SplitN(s, sep, 2)\<close>: cut at the first occurrence only.\<close>
  "SplitN2 s sep =
     (if sep = [] then [s]
      else case Index s sep of
             None \<Rightarrow> [s]
           | Some i \<Rightarrow> [take i s, drop (i + length sep) s])"

function Replace :: "string \<Rightarrow> string \<Rightarrow> string \<Rightarrow> int \<Rightarrow> string" where
  \<comment> \<open>\<open>strings.Replace(s, old, new, n)\<close>: the first \<open>n\<close> non-overlapping occurrences,
      all of them when \<open>n < 0\<close>. Every call site passes a non-empty \<open>old\<close>; for the empty
      one (Go inserts between runes) the model returns \<open>s\<close>.\<close>
  "Replace s old new n =
     (if old = new \<or> n = 0 \<or> old = [] then s
      else case Index s old of
             None \<Rightarrow> s
           | Some i \<Rightarrow> take i s @ new @ Replace (drop (i + length old) s) old new (n - 1))"
  by pat_completeness auto
termination
proof (relation "measure (\<lambda>(s, old, new, n). length s)")
  show "wf (measure (\<lambda>(s, old, new, n). length s))" by simp
next
  fix s old new :: string and n :: int and i
  assume "\<not> (old = new \<or> n = 0 \<or> old = [])" "Index s old = Some i"
  then have "0 < length old" "i + length old \<le> length s"
    using Index_bound by auto
  then show "((drop (i + length old) s, old, new, n - 1), (s, old, new, n))
      \<in> measure (\<lambda>(s, old, new, n). length s)"
    by (cases old) auto
qed

declare Replace.simps [simp del]

fun Join :: "string list \<Rightarrow> string \<Rightarrow> string" where
  "Join [] sep = []"
| "Join [x] sep = x"
| "Join (x # y # ys) sep = x @ sep @ Join (y # ys) sep"

subsection \<open>strings.TrimSpace\<close>

text \<open>
  \<open>strings.TrimSpace\<close> removes the leading and then the trailing runes for which
  \<open>unicode.IsSpace\<close> holds. \<open>spaceRunes\<close> lists their UTF-8 encodings: the six ASCII
  spaces, U+0085, U+00A0, U+1680, U+2000 to U+200A, U+2028, U+2029, U+202F, U+205F
  and U+3000. A lead byte is never a continuation byte, so a space rune is decoded
  at the front (and, backwards, at the end) exactly where its bytes stand there.
\<close>

definition spaceRunes :: "string list" where
  "spaceRunes =
     map (\<lambda>c. [c]) [CHR 0x09, CHR 0x0A, CHR 0x0B, CHR 0x0C, CHR 0x0D, CHR 0x20] @
     [[CHR 0xC2, CHR 0x85], [CHR 0xC2, CHR 0xA0], [CHR 0xE1, CHR 0x9A, CHR 0x80]] @
     map (\<lambda>c. [CHR 0xE2, CHR 0x80, c])
       [CHR 0x80, CHR 0x81, CHR 0x82, CHR 0x83, CHR 0x84, CHR 0x85, CHR 0x86, CHR 0x87,
        CHR 0x88, CHR 0x89, CHR 0x8A, CHR 0xA8, CHR 0xA9, CHR 0xAF] @
     [[CHR 0xE2, CHR 0x81, CHR 0x9F], [CHR 0xE3, CHR 0x80, CHR 0x80]]"

function trimPrefixes :: "string list \<Rightarrow> string \<Rightarrow> string" where
  "trimPrefixes ps s =
     (case find (\<lambda>p. p \<noteq> [] \<and> HasPrefix s p) ps of
        None \<Rightarrow> s
      | Some p \<Rightarrow> trimPrefixes ps (drop (length p) s))"
  by pat_completeness auto
termination
proof (relation "measure (\<lambda>(ps, s). length s)")
  show "wf (measure (\<lambda>(ps, s). length s))" by simp
next
  fix ps :: "string list" and s p :: string
  assume "find (\<lambda>p. p \<noteq> [] \<and> HasPrefix s p) ps = Some p"
  then have "p \<noteq> []" "HasPrefix s p"
    by (auto simp: find_Some_iff)
  then have "0 < length p" "length p \<le> length s"
    by (simp_all add: HasPrefix_length)
  then show "((ps, drop (length p) s), (ps, s)) \<in> measure (\<lambda>(ps, s). length s)"
    by (cases p) auto
qed

declare trimPrefixes.simps [simp del]

definition TrimSpace :: "string \<Rightarrow> string" where
  "TrimSpace s =
     rev (trimPrefixes (map rev spaceRunes) (rev (trimPrefixes spaceRunes s)))"

section \<open>prepareRU\<close>

definition tokensRU :: "string \<rightharpoonup> string" where
  "tokensRU = [''person'' \<mapsto> ''Registrant Name'',
               ''e-mail'' \<mapsto> ''Registrant Email'',
               ''org'' \<mapsto> ''Registrant Organization'']"

definition bodyRU :: "string \<Rightarrow> string \<Rightarrow> string option" where
  \<comment> \<open>The loop body over the local \<open>result\<close>.\<close>
  "bodyRU result v0 =
     (let v = TrimSpace v0 in
      if v = [] then Some result
      else if \<not> Contains v '':'' then Some result
      else do {
        let vs = Split v '':'';
        vs0 \<leftarrow> idx vs 0;
        case tokensRU (TrimSpace vs0) of
          Some vv \<Rightarrow> do {
            vs1 \<leftarrow> idx vs 1;
            Some (result @ (vv @ '': '' @ vs1) @ ''\<newline>'')
          }
        | None \<Rightarrow> Some (result @ v @ ''\<newline>'')
      })"

definition prepareRU :: "string \<Rightarrow> string option" where
  "prepareRU text = for_range bodyRU [] (Split text ''\<newline>'')"


section \<open>Regular expressions (package regexp)\<close>

text \<open>
  The four expressions of prepare.go use literals, character classes, greedy and lazy
  repetition, options and capture groups. \<open>rmatch r (caps, s)\<close> lists, in the order of
  preference of a backtracking matcher (Go's leftmost-first rule), every way \<open>r\<close> can
  match a prefix of \<open>s\<close>: the captures so far and the text that remains.
  Go matches rune by rune, the model byte by byte. The classes of these expressions
  hold ASCII bytes, or every byte but some ASCII ones (a rune beyond ASCII written out
  as its bytes where a class holds one), so both cut the text at the same places.
\<close>

datatype rx =
    Lit string
  | LitI string
  | Cls "char \<Rightarrow> bool"
  | Seq rx rx
  | Alt rx rx
  | Opt rx
  | Star rx
  | Plus rx
  | PlusLazy rx
  | Grp nat rx

type_synonym mstate = "string list \<times> string"

definition lowerASCII :: "char \<Rightarrow> char" where
  "lowerASCII c =
     (let n = (of_char c :: nat) in if 65 \<le> n \<and> n \<le> 90 then char_of (n + 32) else c)"

fun greedy_iter :: "nat \<Rightarrow> (mstate \<Rightarrow> mstate list) \<Rightarrow> mstate \<Rightarrow> mstate list" where
  \<comment> \<open>\<open>r*\<close>: one more \<open>r\<close> first, then stop. An iteration consumes at least one byte,
      so the length of the text bounds their number.\<close>
  "greedy_iter 0 step x = [x]"
| "greedy_iter (Suc k) step x =
     concat (map (greedy_iter k step)
       (filter (\<lambda>y. length (snd y) < length (snd x)) (step x))) @ [x]"

fun lazy_iter :: "nat \<Rightarrow> (mstate \<Rightarrow> mstate list) \<Rightarrow> mstate \<Rightarrow> mstate list" where
  \<comment> \<open>\<open>r*?\<close>: stop first, then one more \<open>r\<close>.\<close>
  "lazy_iter 0 step x = [x]"
| "lazy_iter (Suc k) step x =
     x # concat (map (lazy_iter k step)
       (filter (\<lambda>y. length (snd y) < length (snd x)) (step x)))"

primrec rmatch :: "rx \<Rightarrow> mstate \<Rightarrow> mstate list" where
  "rmatch (Lit l) x =
     (if HasPrefix (snd x) l then [(fst x, drop (length l) (snd x))] else [])"
| "rmatch (LitI l) x =
     (if length l \<le> length (snd x) \<and>
         map lowerASCII (take (length l) (snd x)) = map lowerASCII l
      then [(fst x, drop (length l) (snd x))] else [])"
| "rmatch (Cls p) x =
     (case snd x of [] \<Rightarrow> [] | c # cs \<Rightarrow> if p c then [(fst x, cs)] else [])"
| "rmatch (Seq a b) x = concat (map (rmatch b) (rmatch a x))"
| "rmatch (Alt a b) x = rmatch a x @ rmatch b x"
| "rmatch (Opt a) x = rmatch a x @ [x]"
| "rmatch (Star a) x = greedy_iter (length (snd x)) (rmatch a) x"
| "rmatch (Plus a) x =
     concat (map (\<lambda>y. greedy_iter (length (snd y)) (rmatch a) y) (rmatch a x))"
| "rmatch (PlusLazy a) x =
     concat (map (\<lambda>y. lazy_iter (length (snd y)) (rmatch a) y) (rmatch a x))"
| "rmatch (Grp n a) x =
     map (\<lambda>y. ((fst y)[n := take (length (snd x) - length (snd y)) (snd x)], snd y))
       (rmatch a x)"

fun seqs :: "rx list \<Rightarrow> rx" where
  "seqs [] = Lit []"
| "seqs [r] = r"
| "seqs (r # rs) = Seq r (seqs rs)"

primrec numSubexp :: "rx \<Rightarrow> nat" where
  "numSubexp (Lit l) = 0"
| "numSubexp (LitI l) = 0"
| "numSubexp (Cls p) = 0"
| "numSubexp (Seq a b) = max (numSubexp a) (numSubexp b)"
| "numSubexp (Alt a b) = max (numSubexp a) (numSubexp b)"
| "numSubexp (Opt a) = numSubexp a"
| "numSubexp (Star a) = numSubexp a"
| "numSubexp (Plus a) = numSubexp a"
| "numSubexp (PlusLazy a) = numSubexp a"
| "numSubexp (Grp n a) = max n (numSubexp a)"

fun find_from :: "rx \<Rightarrow> nat \<Rightarrow> string \<Rightarrow> (nat \<times> mstate) option" where
  \<comment> \<open>The leftmost match: its start, its captures (group 0 is the whole match) and the
      text after it. \<open>i\<close> counts the bytes already passed.\<close>
  "find_from r i [] =
     (case rmatch (Grp 0 r) (replicate (Suc (numSubexp r)) [], []) of
        [] \<Rightarrow> None
      | y # _ \<Rightarrow> Some (i, y))"
| "find_from r i (c # cs) =
     (case rmatch (Grp 0 r) (replicate (Suc (numSubexp r)) [], c # cs) of
        [] \<Rightarrow> find_from r (Suc i) cs
      | y # _ \<Rightarrow> Some (i, y))"

definition FindStringSubmatch :: "rx \<Rightarrow> string \<Rightarrow> string list" where
  \<comment> \<open>The captures of the leftmost match; the nil slice \<open>[]\<close> when there is none.\<close>
  "FindStringSubmatch r s =
     (case find_from r 0 s of None \<Rightarrow> [] | Some (i, caps, rest) \<Rightarrow> caps)"

function ReplaceAllString :: "rx \<Rightarrow> string \<Rightarrow> (string list \<Rightarrow> string) \<Rightarrow> string" where
  \<comment> \<open>\<open>re.ReplaceAllString(s, template)\<close> for an expression that matches no empty text;
      \<open>repl\<close> is the expanded template as a function of the captures. The search goes on
      after each match.\<close>
  "ReplaceAllString r s repl =
     (case find_from r 0 s of
        None \<Rightarrow> s
      | Some (i, caps, rest) \<Rightarrow>
          take i s @ repl caps @
          (if length rest < length s then ReplaceAllString r rest repl else rest))"
  by pat_completeness auto
termination
  by (relation "measure (\<lambda>(r, s, repl). length s)") auto

declare ReplaceAllString.simps [simp del]

definition ws :: rx where
  \<comment> \<open>\<open>\s\<close>: tab, newline, form feed, carriage return, space.\<close>
  "ws = Cls (\<lambda>c. c \<in> set [CHR 0x09, CHR 0x0A, CHR 0x0C, CHR 0x0D, CHR 0x20])"

definition nonws :: rx where
  \<comment> \<open>\<open>[^\s]\<close>\<close>
  "nonws = Cls (\<lambda>c. c \<notin> set [CHR 0x09, CHR 0x0A, CHR 0x0C, CHR 0x0D, CHR 0x20])"

definition dot :: rx where
  \<comment> \<open>\<open>.\<close>: anything but a newline.\<close>
  "dot = Cls (\<lambda>c. c \<noteq> CHR 0x0A)"

section \<open>prepareEDU\<close>

definition tokensEDU :: "string \<rightharpoonup> string list" where
  "tokensEDU =
     [''Registrant:'' \<mapsto> [''Organization'', ''Address'', ''Address'', ''Address''],
      ''Administrative Contact:'' \<mapsto>
        [''Name'', ''Organization'', ''Address'', ''Address'', ''Address'', ''Phone'', ''Email''],
      ''Technical Contact:'' \<mapsto>
        [''Name'', ''Organization'', ''Address'', ''Address'', ''Address'', ''Phone'', ''Email'']]"

fun bodyEDU :: "string \<times> nat \<times> string \<Rightarrow> string \<Rightarrow> (string \<times> nat \<times> string) option" where
  \<comment> \<open>The loop body over the locals \<open>(token, index, result)\<close>.\<close>
  "bodyEDU (token, index, result) v0 =
     (let v = TrimSpace v0 in
      if v = [] then Some (token, index, result)
      else
        let (token, index) = (if HasSuffix v '':'' then ([], 0) else (token, index)) in
        if tokensEDU v \<noteq> None then Some (v, index, result)
        else if token = [] then Some (token, index, result @ ''\<newline>'' @ v)
        else do {
          field \<leftarrow> idx (lookup0 tokensEDU token) index;
          Some (token, index + 1,
                result @ ''\<newline>'' @ take (length token - 1) token @ '' '' @ field @ '': '' @ v)
        })"

definition prepareEDU :: "string \<Rightarrow> string option" where
  "prepareEDU text =
     map_option (\<lambda>(token, index, result). result)
       (for_range bodyEDU ([], 0, []) (Split text ''\<newline>''))"

section \<open>prepareTW\<close>

definition tokensTW :: "string \<rightharpoonup> string list" where
  "tokensTW =
     [''Registrant:'' \<mapsto>
        [''Organization'', ''Name,Email'', ''Phone'', ''Fax'', ''Address'', ''Address'', ''Address''],
      ''Administrative Contact:'' \<mapsto> [''Name,Email'', ''Phone'', ''Fax''],
      ''Technical Contact:'' \<mapsto> [''Name,Email'', ''Phone'', ''Fax''],
      ''Contact:'' \<mapsto> [''Name'', ''Email'']]"

definition colonDates :: "string \<Rightarrow> string" where
  \<comment> \<open>The inner loop of prepareMO and prepareTW over the two date prefixes.\<close>
  "colonDates v =
     foldl (\<lambda>v s. if HasPrefix v s then Replace v s (s @ '':'') 1 else v) v
       [''Record created on'', ''Record expires on'']"

definition reTW :: rx where
  \<comment> \<open>\<open>(.*)\s+([^\s]+@[^\s]+)\<close>\<close>
  "reTW = seqs [Grp 1 (Star dot), Plus ws, Grp 2 (seqs [Plus nonws, Lit ''@'', Plus nonws])]"

definition idxI :: "'a list \<Rightarrow> int \<Rightarrow> 'a option" where
  \<comment> \<open>\<open>xs[i]\<close> for a signed index.\<close>
  "idxI xs i = (if 0 \<le> i \<and> nat i < length xs then Some (xs ! nat i) else None)"

fun bodyTW :: "string \<times> int \<times> string \<Rightarrow> string \<Rightarrow> (string \<times> int \<times> string) option" where
  \<comment> \<open>The loop body over the locals \<open>(token, index, result)\<close>.\<close>
  "bodyTW (token, index, result) v0 =
     (let v = TrimSpace v0 in
      if v = [] then Some (token, index, result)
      else
        let v = colonDates v;
            (token, index) = (if Contains v '':'' then ([], -1) else (token, index)) in
        if tokensTW v \<noteq> None then Some (v, index, result)
        else if token = [] then Some (token, index, result @ ''\<newline>'' @ v)
        else do {
          let index = index + 1;
          let tokenName = take (length token - 1) token;
          indexName \<leftarrow> idxI (lookup0 tokensTW token) index;
          let tokenName = (if tokenName = ''Contact'' then ''Registrant Contact'' else tokenName);
          if Contains indexName '','' then do {
            let ins = Split indexName '','';
            let m = FindStringSubmatch reTW v;
            ins0 \<leftarrow> idx ins 0;
            if length m = 3 then do {
              m1 \<leftarrow> idx m 1;
              ins1 \<leftarrow> idx ins 1;
              m2 \<leftarrow> idx m 2;
              Some (token, index,
                    result @ ''\<newline>'' @ tokenName @ '' '' @ ins0 @ '': '' @ TrimSpace m1
                           @ ''\<newline>'' @ tokenName @ '' '' @ ins1 @ '': '' @ TrimSpace m2)
            } else
              Some (token, index,
                    result @ ''\<newline>'' @ tokenName @ '' '' @ ins0 @ '': '' @ TrimSpace v)
          } else
            Some (token, index,
                  result @ ''\<newline>'' @ tokenName @ '' '' @ indexName @ '': '' @ v)
        })"

definition prepareTW :: "string \<Rightarrow> string option" where
  "prepareTW text =
     map_option (\<lambda>(token, index, result). result)
       (for_range bodyTW ([], -1, []) (Split text ''\<newline>''))"

section \<open>prepareINT\<close>

fun bodyINT :: "string \<times> string \<Rightarrow> string \<Rightarrow> (string \<times> string) option" where
  \<comment> \<open>The loop body over the locals \<open>(token, result)\<close>.\<close>
  "bodyINT (token, result) v0 =
     (let v = TrimSpace v0 in
      if v = [] then Some ([], result)
      else if Contains v '':'' then do {
        let vs = Split v '':'';
        vs0 \<leftarrow> idx vs 0;
        let token = (if TrimSpace vs0 = ''organisation'' \<and> token = []
                     then ''registrant'' else token);
        if TrimSpace vs0 = ''contact'' then do {
          vs1 \<leftarrow> idx vs 1;
          Some (TrimSpace vs1, result @ ''\<newline>'' @ v)
        } else
          let v = (if token \<noteq> [] then token @ '' '' @ v else v) in
          Some (token, result @ ''\<newline>'' @ v)
      } else Some (token, result @ ''\<newline>'' @ v))"

definition prepareINT :: "string \<Rightarrow> string option" where
  "prepareINT text =
     map_option (\<lambda>(token, result). result)
       (for_range bodyINT ([], []) (Split text ''\<newline>''))"

section \<open>prepareMO\<close>

definition tokensMO :: "string \<rightharpoonup> string" where
  "tokensMO =
     [''Registrant:'' \<mapsto> ''Registrant'',
      ''Admin Contact(s):'' \<mapsto> ''Admin'',
      ''Billing Contact(s):'' \<mapsto> ''Billing'',
      ''Technical Contact(s):'' \<mapsto> ''Technical'']"

fun bodyMO :: "string \<times> string \<Rightarrow> string \<Rightarrow> (string \<times> string) option" where
  \<comment> \<open>The loop body over the locals \<open>(token, result)\<close>.\<close>
  "bodyMO (token, result) v0 =
     (let v = TrimSpace v0 in
      if v = [] then Some ([], result)
      else do {
        c \<leftarrow> idx v 0;
        if c = CHR ''-'' then Some (token, result)
        else
          let v = colonDates v in
          case tokensMO v of
            Some t \<Rightarrow> Some (t, result @ ''\<newline>'' @ v)
          | None \<Rightarrow>
              let v = (if token \<noteq> [] then token @ '' '' @ v else v) in
              Some (token, result @ ''\<newline>'' @ v)
      })"

definition prepareMO :: "string \<Rightarrow> string option" where
  "prepareMO text =
     map_option (\<lambda>(token, result). result)
       (for_range bodyMO ([], []) (Split text ''\<newline>''))"

section \<open>prepareHK\<close>

definition tokensHK :: "string \<rightharpoonup> string" where
  "tokensHK =
     [''Registrant Contact Information:'' \<mapsto> ''Registrant'',
      ''Administrative Contact Information:'' \<mapsto> ''Admin'',
      ''Technical Contact Information:'' \<mapsto> ''Technical'',
      ''Name Servers Information:'' \<mapsto> ''Name Servers:'']"

definition dateTokens :: "string list" where
  "dateTokens = [''Domain Name Commencement Date'', ''Expiry Date'']"

definition IsContains :: "'a list \<Rightarrow> 'a \<Rightarrow> bool" where
  \<comment> \<open>\<open>assert.IsContains\<close> of the gokit library on a slice: the membership test.\<close>
  "IsContains xs x = (x \<in> set xs)"

definition reHK :: rx where
  \<comment> \<open>\<open>Email\:\s+([^\s]+)(\s+Hotline\:(.*))?\<close>\<close>
  "reHK = seqs [Lit ''Email:'', Plus ws, Grp 1 (Plus nonws),
                Opt (Grp 2 (seqs [Plus ws, Lit ''Hotline:'', Grp 3 (Star dot)]))]"

definition emitHK ::
  "string \<times> bool \<times> string \<Rightarrow> string \<Rightarrow> string \<Rightarrow> (string \<times> bool \<times> string) option" where
  \<comment> \<open>The end of the loop body: the section lookup and the emission.\<close>
  "emitHK s field v =
     (case s of (token, addressToken, result) \<Rightarrow>
        case tokensHK v of
          Some t \<Rightarrow> Some (t, addressToken, result @ ''\<newline>'' @ v)
        | None \<Rightarrow>
            let v = (if token \<noteq> [] \<and> \<not> IsContains dateTokens field
                     then token @ '' '' @ v else v) in
            Some (token, addressToken, result @ ''\<newline>'' @ v))"

fun bodyHK :: "string \<times> bool \<times> string \<Rightarrow> string \<Rightarrow> (string \<times> bool \<times> string) option" where
  \<comment> \<open>The loop body over the locals \<open>(token, addressToken, result)\<close>.\<close>
  "bodyHK (token, addressToken, result) v0 =
     (let v = TrimSpace v0 in
      if v = [] then Some ([], addressToken, result)
      else if Contains v '':'' then do {
        let vs = SplitN2 v '':'';
        vs0 \<leftarrow> idx vs 0;
        let field = TrimSpace vs0;
        (field, v) \<leftarrow>
          (if Contains field ''('' then do {
             f \<leftarrow> idx (Split field ''('') 0;
             vs1 \<leftarrow> idx vs 1;
             Some (f, f @ '': '' @ vs1)
           } else Some (field, v));
        let addressToken = (field = ''Address'');
        v \<leftarrow>
          (if field = ''Registrar Contact Information'' then do {
             vs1 \<leftarrow> idx vs 1;
             let m = FindStringSubmatch reHK vs1;
             if length m = 4 then do {
               m1 \<leftarrow> idx m 1;
               let w = (if m1 \<noteq> [] then ''Registrar Contact Email: '' @ m1 @ ''\<newline>'' else []);
               m3 \<leftarrow> idx m 3;
               let w = (if m3 \<noteq> [] then w @ ''Registrar Contact Phone: '' @ m3 @ ''\<newline>'' else w);
               Some (TrimSpace w)
             } else Some v
           } else Some v);
        if field = ''Family name'' then do {
          vs1 \<leftarrow> idx vs 1;
          let vv = TrimSpace vs1;
          Some (token, addressToken,
                if vv \<noteq> [] \<and> vv \<noteq> ''.'' then result @ '' '' @ vv else result)
        } else emitHK (token, addressToken, result) field v
      } else if addressToken then Some (token, addressToken, result @ '', '' @ v)
      else emitHK (token, addressToken, result) [] v)"

definition prepareHK :: "string \<Rightarrow> string option" where
  "prepareHK text0 =
     (let text = Replace text0 ''\<newline>\<newline>'' ''\<newline>'' (-1) in
      map_option (\<lambda>(token, addressToken, result). result)
        (for_range bodyHK ([], False, []) (Split text ''\<newline>'')))"

section \<open>prepareCH\<close>

text \<open>
  \<open>strings.ToLower\<close> maps each rune to its lower case. prepare.go compares its result
  only with lower-cased ASCII text, by prefix or by equality, so the model keeps what
  decides such a comparison: an ASCII capital becomes its small letter, and so do the
  only two runes beyond ASCII whose lower case is an ASCII letter, U+0130 (\<open>i\<close>) and
  U+212A (\<open>k\<close>); every other byte is kept, where Go's result has bytes beyond ASCII too.
\<close>

fun ToLower :: "string \<Rightarrow> string" where
  "ToLower (c1 # c2 # c3 # cs) =
     (if c1 = CHR 0xE2 \<and> c2 = CHR 0x84 \<and> c3 = CHR 0xAA then CHR ''k'' # ToLower cs
      else if c1 = CHR 0xC4 \<and> c2 = CHR 0xB0 then CHR ''i'' # ToLower (c3 # cs)
      else lowerASCII c1 # ToLower (c2 # c3 # cs))"
| "ToLower [c1, c2] =
     (if c1 = CHR 0xC4 \<and> c2 = CHR 0xB0 then ''i''
      else [lowerASCII c1, lowerASCII c2])"
| "ToLower [c1] = [lowerASCII c1]"
| "ToLower [] = []"

definition tokensCH :: "string list" where
  "tokensCH = [''Domain name'', ''Holder'', ''Technical contact'', ''Registrar'', ''DNSSEC'',
               ''Name servers'', ''First registration date'']"

definition splitsCH :: "string \<rightharpoonup> string" where
  "splitsCH =
     [''Holder'' \<mapsto> ''Registrant organization, Registrant name, Registrant street'',
      ''Technical contact'' \<mapsto> ''Technical organization, Technical name, Technical street'']"

definition bodyCH1 :: "string \<Rightarrow> string \<Rightarrow> string option" where
  \<comment> \<open>The body of the first loop over the local \<open>result\<close>; the inner loop over the
      tokens stops at the first one that matches.\<close>
  "bodyCH1 result v0 =
     (let v = TrimSpace v0 in
      if v = [] then Some result
      else
        case find (\<lambda>t. HasPrefix (ToLower v @ '' '') (ToLower (t @ '' ''))) tokensCH of
          Some t \<Rightarrow>
            if length t \<le> length v
            then Some (result @ ''\<newline>'' @ TrimSpace t @ '': '' @ TrimSpace (drop (length t) v))
            else None
        | None \<Rightarrow> Some (result @ '', '' @ v))"

fun zipCH :: "string list \<Rightarrow> string list \<Rightarrow> nat list \<Rightarrow> string list option" where
  \<comment> \<open>\<open>for k := range vv { results = append(results, ss[k] + ": " + vv[k]) }\<close>\<close>
  "zipCH ss vv [] = Some []"
| "zipCH ss vv (k # ks) = do {
     s \<leftarrow> idx ss k;
     x \<leftarrow> idx vv k;
     rest \<leftarrow> zipCH ss vv ks;
     Some ((s @ '': '' @ x) # rest)
   }"

definition bodyCH2 :: "string list \<Rightarrow> string \<Rightarrow> string list option" where
  \<comment> \<open>The body of the second loop over the local \<open>results\<close>.\<close>
  "bodyCH2 results v =
     (if \<not> Contains v '':'' then Some results
      else do {
        let vs = Split v '':'';
        vs0 \<leftarrow> idx vs 0;
        case splitsCH vs0 of
          Some sp \<Rightarrow> do {
            vs1 \<leftarrow> idx vs 1;
            let vv = Split vs1 '', '';
            let ss = Split sp '', '';
            let vv = (if length vv > length ss
                      then take (length ss)
                             (vv[length ss - 1 := Join (drop (length ss - 1) vv) '', ''])
                      else vv);
            rows \<leftarrow> zipCH ss vv [0..<length vv];
            Some (results @ rows)
          }
        | None \<Rightarrow> Some (results @ [v])
      })"

definition prepareCH :: "string \<Rightarrow> string option" where
  "prepareCH text = do {
     result \<leftarrow> for_range bodyCH1 [] (Split text ''\<newline>'');
     results \<leftarrow> for_range bodyCH2 [] (Split result ''\<newline>'');
     let text = Join results ''\<newline>'';
     Some (Replace text '': ,'' '':'' (-1))
   }"

section \<open>prepareIT\<close>

definition topTokens :: "string list" where
  "topTokens = [''Registrant'', ''Admin Contact'', ''Technical Contacts'', ''Registrar'',
                ''Nameservers'']"

definition emitIT :: "string \<Rightarrow> string \<Rightarrow> string \<Rightarrow> string" where
  \<comment> \<open>The emission that ends the loop body.\<close>
  "emitIT topToken result v =
     (if topToken \<noteq> [] \<and> \<not> Contains v '':''
      then result @ ''\<newline>'' @ topToken @ '': '' @ v
      else result @ ''\<newline>'' @ topToken @ v)"

fun bodyIT :: "string \<times> string \<times> string \<Rightarrow> string \<Rightarrow> (string \<times> string \<times> string) option" where
  \<comment> \<open>The loop body over the locals \<open>(topToken, subToken, result)\<close>.\<close>
  "bodyIT (topToken, subToken, result) v0 =
     (let v = TrimSpace v0 in
      if v = [] then Some (topToken, subToken, result)
      else if IsContains topTokens v then Some (v @ '' '', [], result)
      else do {
        c \<leftarrow> idx v 0;
        if c \<noteq> CHR ''*'' \<and> Contains v '':'' then do {
          vs0 \<leftarrow> idx (Split v '':'') 0;
          Some (topToken, vs0, emitIT topToken result v)
        } else if subToken \<noteq> [] then Some (topToken, subToken, result @ '', '' @ v)
        else Some (topToken, subToken, emitIT topToken result v)
      })"

definition prepareIT :: "string \<Rightarrow> string option" where
  "prepareIT text =
     map_option (\<lambda>(topToken, subToken, result). result)
       (for_range bodyIT ([], [], []) (Split text ''\<newline>''))"

section \<open>prepareFR\<close>

text \<open>
  The helper \<open>Keys\<close>, which lists the keys of the handle map, is not defined in
  prepare.go. It is a parameter of the model: a function from the map to the list of
  roles that the loop over \<open>Keys(hdls)\<close> visits, in that order.
\<close>

type_synonym keys = "(string \<rightharpoonup> string) \<Rightarrow> string list"

definition dsToken :: string where "dsToken = ''dsl-id''"
definition hdlToken :: string where "hdlToken = ''nic-hdl''"
definition regToken :: string where "regToken = ''registrar''"

definition tokensFR :: "string \<rightharpoonup> string" where
  "tokensFR = [''holder-c'' \<mapsto> ''holder'', ''admin-c'' \<mapsto> ''admin'', ''tech-c'' \<mapsto> ''tech'']"

definition lookupS :: "(string \<rightharpoonup> string) \<Rightarrow> string \<Rightarrow> string" where
  \<comment> \<open>\<open>m[k]\<close> for a map of strings: the empty string when the key is missing.\<close>
  "lookupS m k = (case m k of None \<Rightarrow> [] | Some v \<Rightarrow> v)"

fun correlate ::
  "string list \<Rightarrow> string list \<Rightarrow> string \<Rightarrow> (string \<rightharpoonup> string)
     \<Rightarrow> (string \<times> (string \<rightharpoonup> string)) option" where
  \<comment> \<open>The loop over \<open>Keys(hdls)\<close>: the first role whose handle is the value of the
      line becomes the prefix and leaves the map.\<close>
  "correlate [] vs token hdls = Some (token, hdls)"
| "correlate (kk # ks) vs token hdls = do {
     vs1 \<leftarrow> idx vs 1;
     if TrimSpace vs1 = lookupS hdls kk then Some (kk @ '' '', hdls(kk := None))
     else correlate ks vs token hdls
   }"

fun bodyFR ::
  "keys \<Rightarrow> string \<times> bool \<times> (string \<rightharpoonup> string) \<times> string \<Rightarrow> string
     \<Rightarrow> (string \<times> bool \<times> (string \<rightharpoonup> string) \<times> string) option" where
  \<comment> \<open>The loop body over the locals \<open>(token, newBlock, hdls, result)\<close>.\<close>
  "bodyFR Keys (token, newBlock, hdls, result) v0 =
     (let v = TrimSpace v0 in
      if v = [] then Some (token, True, hdls, result)
      else do {
        let vs = Split v '':'';
        vs0 \<leftarrow> idx vs 0;
        (token, v) \<leftarrow>
          (if newBlock \<and> TrimSpace vs0 = regToken then do {
             vs1 \<leftarrow> idx vs 1;
             Some (regToken @ '' '', ''name: '' @ TrimSpace vs1)
           } else Some (token, v));
        let newBlock = False;
        hdls \<leftarrow>
          (case tokensFR (TrimSpace vs0) of
             Some t \<Rightarrow> do { vs1 \<leftarrow> idx vs 1; Some (hdls(t \<mapsto> TrimSpace vs1)) }
           | None \<Rightarrow> Some hdls);
        v \<leftarrow>
          (if TrimSpace vs0 = dsToken then do {
             vs1 \<leftarrow> idx vs 1;
             Some (if TrimSpace vs1 \<noteq> [] then v @ ''\<newline>DNSSEC: signed'' else v)
           } else Some v);
        (token, hdls) \<leftarrow>
          (if TrimSpace vs0 = hdlToken then correlate (Keys hdls) vs token hdls
           else Some (token, hdls));
        Some (token, newBlock, hdls, result @ ''\<newline>'' @ token @ v)
      })"

definition prepareFR :: "keys \<Rightarrow> string \<Rightarrow> string option" where
  "prepareFR Keys text =
     map_option (\<lambda>(token, newBlock, hdls, result). result)
       (for_range (bodyFR Keys) ([], False, Map.empty, []) (Split text ''\<newline>''))"

section \<open>prepareJP\<close>

text \<open>
  The last group of \<open>dotJPReplacer\<close> takes one rune; the model takes one byte. The
  template puts the group back in front of the text that follows the match, so the text
  after the replacement is the same.
\<close>

definition dotJPReplacer :: rx where
  \<comment> \<open>\<open>\n\[(.+?)\][\ ]*(.+?)?\<close>\<close>
  "dotJPReplacer =
     seqs [Lit ''\<newline>['', Grp 1 (PlusLazy dot), Lit '']'', Star (Cls (\<lambda>c. c = CHR '' '')),
           Opt (Grp 2 (PlusLazy dot))]"

definition grp :: "string list \<Rightarrow> nat \<Rightarrow> string" where
  \<comment> \<open>\<open>$i\<close> in a template: the text of group \<open>i\<close>, empty when the group is absent.\<close>
  "grp m i = (if i < length m then m ! i else [])"

definition adminToken :: string where "adminToken = ''Contact Information''"
definition addressToken :: string where "addressToken = ''Postal Address''"

fun bodyJP :: "string \<times> string \<times> string \<Rightarrow> string \<Rightarrow> (string \<times> string \<times> string) option" where
  \<comment> \<open>The loop body over the locals \<open>(token, prefixToken, result)\<close>.\<close>
  "bodyJP (token, prefixToken, result) v0 =
     (let v = TrimSpace v0 in
      if v = [] then Some (token, prefixToken, result)
      else if Contains v '':'' then do {
        vs0 \<leftarrow> idx (Split v '':'') 0;
        let token = TrimSpace vs0;
        let prefixToken = (if token = adminToken then ''admin '' else prefixToken);
        Some (token, prefixToken, result @ ''\<newline>'' @ prefixToken @ v)
      } else if token = addressToken then Some (token, prefixToken, result @ '', '' @ v)
      else Some (token, prefixToken, result @ ''\<newline>'' @ prefixToken @ v))"

definition prepareJP :: "string \<Rightarrow> string option" where
  "prepareJP text0 =
     (let text = ReplaceAllString dotJPReplacer text0
                   (\<lambda>m. ''\<newline>'' @ grp m 1 @ '': '' @ grp m 2) in
      map_option (\<lambda>(token, prefixToken, result). result)
        (for_range bodyJP ([], [], []) (Split text ''\<newline>'')))"

section \<open>prepareUK and prepareKR\<close>

definition tokensUK :: "string \<rightharpoonup> string" where
  "tokensUK = [''URL'' \<mapsto> ''Registrar URL'']"

definition rekey :: "(string \<rightharpoonup> string) \<Rightarrow> string \<Rightarrow> string option" where
  \<comment> \<open>The rewriting of a line's key that prepareUK and prepareKR share.\<close>
  "rekey tokens v =
     (if Contains v '':'' then do {
        let vs = SplitN2 v '':'';
        vs0 \<leftarrow> idx vs 0;
        case tokens (TrimSpace vs0) of
          Some vv \<Rightarrow> do { vs1 \<leftarrow> idx vs 1; Some (vv @ '': '' @ vs1) }
        | None \<Rightarrow> Some v
      } else Some v)"

definition bodyUK :: "string \<Rightarrow> string \<Rightarrow> string option" where
  \<comment> \<open>The loop body over the local \<open>result\<close>.\<close>
  "bodyUK result v0 =
     (let v = TrimSpace v0 in
      if v = [] then Some result
      else do { v \<leftarrow> rekey tokensUK v; Some (result @ ''\<newline>'' @ v) })"

definition prepareUK :: "string \<Rightarrow> string option" where
  "prepareUK text = for_range bodyUK [] (Split text ''\<newline>'')"

definition english :: string where "english = ''# ENGLISH''"

definition tokensKR :: "string \<rightharpoonup> string" where
  "tokensKR =
     [''Administrative Contact(AC)'' \<mapsto> ''Administrative Contact Name'',
      ''AC E-Mail'' \<mapsto> ''Administrative Contact E-Mail'',
      ''AC Phone Number'' \<mapsto> ''Administrative Contact Phone Number'']"

definition bodyKR :: "string \<Rightarrow> string \<Rightarrow> string option" where
  \<comment> \<open>The loop body over the local \<open>result\<close>.\<close>
  "bodyKR result v0 =
     (let v = TrimSpace v0 in
      if v = [] then Some result
      else do {
        c \<leftarrow> idx v 0;
        if c = CHR 0x27 \<or> c = CHR ''-'' then Some result
        else do { v \<leftarrow> rekey tokensKR v; Some (result @ ''\<newline>'' @ v) }
      })"

definition prepareKR :: "string \<Rightarrow> string option" where
  "prepareKR text0 =
     (let text = (case Index text0 english of
                    None \<Rightarrow> text0
                  | Some pos \<Rightarrow> drop (pos + length english) text0) in
      for_range bodyKR [] (Split text ''\<newline>''))"

section \<open>Prepare\<close>

text \<open>
  Under the flag \<open>(?i)\<close> a letter of the expression also matches its other case, and the
  classes \<open>[a-z0-9\-]\<close> and \<open>[a-z]\<close> are closed under simple case folding: they hold the
  capitals and the two runes beyond ASCII that fold to a letter, U+017F (with \<open>s\<close>) and
  U+212A (with \<open>k\<close>). No letter of \<open>Domain\<close> or \<open>name\<close> has such a partner.
\<close>

definition isAlpha :: "char \<Rightarrow> bool" where
  "isAlpha c = (let n = (of_char c :: nat) in (65 \<le> n \<and> n \<le> 90) \<or> (97 \<le> n \<and> n \<le> 122))"

definition isDigit :: "char \<Rightarrow> bool" where
  "isDigit c = (let n = (of_char c :: nat) in 48 \<le> n \<and> n \<le> 57)"

definition foldRunes :: rx where
  \<comment> \<open>U+017F and U+212A in UTF-8.\<close>
  "foldRunes = Alt (Lit [CHR 0xC5, CHR 0xBF]) (Lit [CHR 0xE2, CHR 0x84, CHR 0xAA])"

definition labelChar :: rx where
  \<comment> \<open>\<open>(?i)[a-z0-9\-]\<close>\<close>
  "labelChar = Alt (Cls (\<lambda>c. isAlpha c \<or> isDigit c \<or> c = CHR ''-'')) foldRunes"

definition tldChar :: rx where
  \<comment> \<open>\<open>(?i)[a-z]\<close>\<close>
  "tldChar = Alt (Cls isAlpha) foldRunes"

definition searchDomain :: rx where
  \<comment> \<open>\<open>(?i)\[?Domain(\s+name)?\]?\s*\:?\s*([a-z0-9\-]+)\.([a-z]{2,})\<close>\<close>
  "searchDomain =
     seqs [Opt (Lit ''[''), LitI ''Domain'', Opt (Grp 1 (Seq (Plus ws) (LitI ''name''))),
           Opt (Lit '']''), Star ws, Opt (Lit '':''), Star ws,
           Grp 2 (Plus labelChar), Lit ''.'', Grp 3 (Seq tldChar (Plus tldChar))]"

definition dispatch :: "keys \<Rightarrow> string \<Rightarrow> string \<Rightarrow> string option" where
  \<comment> \<open>The switch on the lower-cased label.\<close>
  "dispatch Keys tld text =
     (if tld = ''edu'' then prepareEDU text
      else if tld = ''int'' then prepareINT text
      else if tld = ''mo'' then prepareMO text
      else if tld = ''hk'' then prepareHK text
      else if tld = ''tw'' then prepareTW text
      else if tld = ''ch'' then prepareCH text
      else if tld = ''it'' then prepareIT text
      else if tld \<in> set [''fr'', ''re'', ''tf'', ''yt'', ''pm'', ''wf''] then prepareFR Keys text
      else if tld \<in> set [''ru'', ''su''] then prepareRU text
      else if tld = ''jp'' then prepareJP text
      else if tld = ''uk'' then prepareUK text
      else if tld = ''kr'' then prepareKR text
      else Some text)"

definition Prepare :: "keys \<Rightarrow> string \<Rightarrow> string option" where
  "Prepare Keys text0 =
     (let text = Replace text0 [CHR 0x0D] [] (-1);
          text = Replace text [CHR 0x09] '' '' (-1);
          m = FindStringSubmatch searchDomain text in
      if length m > 0 then do {
        m3 \<leftarrow> idx m 3;
        dispatch Keys (ToLower m3) text
      } else Some text)"

section \<open>The detector and the pre-pass, as the specification words them\<close>

definition stripCRTab :: "string \<Rightarrow> string" where
  \<comment> \<open>The universal pre-pass in the words of the specification: carriage returns are
      removed and every tab becomes a space.\<close>
  "stripCRTab text =
     map (\<lambda>c. if c = CHR 0x09 then CHR '' '' else c) (filter (\<lambda>c. c \<noteq> CHR 0x0D) text)"

definition detectTLD :: "string \<Rightarrow> string option" where
  \<comment> \<open>The dialect detector: the lower-cased third group of the leftmost match of
      \<open>searchDomain\<close>, if there is a match.\<close>
  "detectTLD text =
     (case FindStringSubmatch searchDomain text of
        [] \<Rightarrow> None
      | m0 # ms \<Rightarrow> map_option ToLower (idx (m0 # ms) 3))"

definition dialects :: "string list" where
  \<comment> \<open>The labels of the switch in Prepare.\<close>
  "dialects = [''edu'', ''int'', ''mo'', ''hk'', ''tw'', ''ch'', ''it'', ''fr'', ''re'', ''tf'',
               ''yt'', ''pm'', ''wf'', ''ru'', ''su'', ''jp'', ''uk'', ''kr'']"


definition KeysSorted :: keys where
  \<comment> \<open>An instance of the parameter \<open>Keys\<close>: the recorded roles in alphabetical order.\<close>
  "KeysSorted hdls = filter (\<lambda>k. hdls k \<noteq> None) [''admin'', ''holder'', ''tech'']"


section \<open>Runs of the loop of prepareFR\<close>






section \<open>Shapes of an output text\<close>

definition startsNL :: "string \<Rightarrow> bool" where
  \<comment> \<open>The text is empty or begins with a newline.\<close>
  "startsNL r = (r = [] \<or> hd r = CHR 0x0A)"

definition endsNL :: "string \<Rightarrow> bool" where
  \<comment> \<open>The text is empty, or it ends with a newline and does not begin with one.\<close>
  "endsNL r = (r = [] \<or> (hd r \<noteq> CHR 0x0A \<and> last r = CHR 0x0A))"

section \<open>Worked examples of the specification\<close>

text \<open>
  C6 (as stated): for the input \<open>person: John Smith\<newline>e-mail: j@example.com\<newline>\<close> the RU
  transformer returns \<open>Registrant Name: John Smith\<newline>Registrant Email: j@example.com\<close>
  exactly. It does not: the value keeps the space that follows the colon in the input,
  after the colon and space that the format string adds, and every kept line is followed
  by a newline.
\<close>

theorem C6_ru_example_counterexample:
  "prepareRU ''person: John Smith\<newline>e-mail: j@example.com\<newline>''
     \<noteq> Some ''Registrant Name: John Smith\<newline>Registrant Email: j@example.com''"
  by code_simp

text \<open>
  C6 (amended): for that input the RU transformer returns the two lines in input order,
  each label rewritten, each value being the input text after the colon unchanged (so
  two spaces follow the colon), and each line ended by a newline.
\<close>

theorem C6_ru_example:
  "prepareRU ''person: John Smith\<newline>e-mail: j@example.com\<newline>''
     = Some ''Registrant Name:  John Smith\<newline>Registrant Email:  j@example.com\<newline>''"
  by code_simp

text \<open>
  C7: for the input \<open>Registrant:\<newline>Example University\<newline>123 Main St\<newline>\<close> the output of the
  EDU transformer contains the lines \<open>Registrant Organization: Example University\<close> and
  \<open>Registrant Address: 123 Main St\<close>: the fields of the schema go to the lines in order.
\<close>

theorem C7_edu_example:
  "prepareEDU ''Registrant:\<newline>Example University\<newline>123 Main St\<newline>''
     = Some ''\<newline>Registrant Organization: Example University\<newline>Registrant Address: 123 Main St''
   \<and> Split ''\<newline>Registrant Organization: Example University\<newline>Registrant Address: 123 Main St''
        ''\<newline>''
     = [[], ''Registrant Organization: Example University'', ''Registrant Address: 123 Main St'']"
  by code_simp

text \<open>
  C5 (as stated): for the two lines \<open>Holder\<close> and \<open>Acme AG, Jane Doe, Main Street 1\<close> the
  CH transformer returns exactly the lines \<open>Registrant organization: Acme AG\<close>,
  \<open>Registrant name: Jane Doe\<close> and \<open>Registrant street: Main Street 1\<close>. It does not.
\<close>

theorem C5_ch_example_counterexample:
  "prepareCH ''Holder\<newline>Acme AG, Jane Doe, Main Street 1''
     \<noteq> Some ''Registrant organization: Acme AG\<newline>Registrant name: Jane Doe\<newline>Registrant street: Main Street 1''"
  by code_simp

text \<open>
  C5 (amended): the first loop joins the second line to the empty value of \<open>Holder\<close> with
  a comma, so the value that the second loop splits begins with an empty segment. The
  output is exactly three lines: the organization holds that segment (one space), the
  name holds \<open>Acme AG\<close>, and the street, the last sub-field, absorbs the two segments that
  are left: \<open>Jane Doe, Main Street 1\<close>.
\<close>

theorem C5_ch_example:
  "prepareCH ''Holder\<newline>Acme AG, Jane Doe, Main Street 1''
     = Some ''Registrant organization:  \<newline>Registrant name: Acme AG\<newline>Registrant street: Jane Doe, Main Street 1''"
  by code_simp

section \<open>Lines that make a transformer panic\<close>

text \<open>
  C1: Prepare never fails; in particular a line of the FR dialect without a colon whose
  text is one of the special keys still gives normal output. The code indexes \<open>vs[1]\<close>
  on such a line without a test for the colon, and panics: after a line that routes
  the text to prepareFR, each of the lines \<open>holder-c\<close>, \<open>admin-c\<close>, \<open>tech-c\<close> and \<open>dsl-id\<close>,
  and the line \<open>registrar\<close> at the start of a block, ends the call with a panic,
  whatever the helper \<open>Keys\<close> does. The line \<open>nic-hdl\<close> reads \<open>vs[1]\<close> inside the loop
  over the recorded roles: it panics once a role is recorded and \<open>Keys\<close> lists it, and
  passes while the map is empty.
\<close>

theorem C1_fr_key_without_colon_panics:
  "Prepare Keys ''domain: example.fr\<newline>holder-c'' = None
   \<and> Prepare Keys ''domain: example.fr\<newline>admin-c'' = None
   \<and> Prepare Keys ''domain: example.fr\<newline>tech-c'' = None
   \<and> Prepare Keys ''domain: example.fr\<newline>dsl-id'' = None
   \<and> Prepare Keys ''domain: example.fr\<newline>\<newline>registrar'' = None
   \<and> Prepare KeysSorted ''domain: example.fr\<newline>admin-c: AB1\<newline>nic-hdl'' = None
   \<and> Prepare KeysSorted ''domain: example.fr\<newline>nic-hdl'' = Some ''\<newline>domain: example.fr\<newline>nic-hdl''"
  by code_simp

text \<open>
  C3: in the EDU and TW transformers the field cursor never exceeds the schema of the
  section, and surplus lines are dropped or folded. The code reads
  \<open>tokens[token][index]\<close> without a bound: a fifth line under \<open>Registrant:\<close> (EDU, four
  fields) and a third line under \<open>Contact:\<close> (TW, two fields) end the call with a panic.
\<close>

theorem C3_schema_overrun_panics:
  "Prepare Keys ''Domain Name: example.edu\<newline>Registrant:\<newline>A\<newline>B\<newline>C\<newline>D\<newline>E'' = None
   \<and> prepareEDU ''Registrant:\<newline>A\<newline>B\<newline>C\<newline>D\<newline>E'' = None
   \<and> Prepare Keys ''Domain Name: example.tw\<newline>Contact:\<newline>A\<newline>B\<newline>C'' = None
   \<and> prepareTW ''Contact:\<newline>A\<newline>B\<newline>C'' = None"
  by code_simp

section \<open>The pre-pass and the detector\<close>

lemma Index_single_None: "Index s [c] = None \<Longrightarrow> c \<notin> set s"
  by (induction s) (auto simp: HasPrefix_def split: if_splits)

lemma Index_single_Some:
  "Index s [c] = Some i \<Longrightarrow> c \<notin> set (take i s) \<and> drop i s = c # drop (Suc i) s"
proof (induction s arbitrary: i)
  case Nil then show ?case by simp
next
  case (Cons a s)
  show ?case
  proof (cases "a = c")
    case True
    with Cons.prems show ?thesis by (simp add: HasPrefix_def)
  next
    case False
    with Cons.prems obtain j where j: "Index s [c] = Some j" "i = Suc j"
      by (auto simp: HasPrefix_def)
    with Cons.IH[OF j(1)] False show ?thesis by simp
  qed
qed

lemma filter_absent: "c \<notin> set s \<Longrightarrow> filter (\<lambda>x. x \<noteq> c) s = s"
  by (induction s) auto

lemma map_absent: "c \<notin> set s \<Longrightarrow> map (\<lambda>x. if x = c then d else x) s = s"
  by (induction s) auto

lemma Replace_delete: "n < 0 \<Longrightarrow> Replace s [c] [] n = filter (\<lambda>x. x \<noteq> c) s"
proof (induction s "[c]" "[]::string" n rule: Replace.induct)
  case (1 s n)
  show ?case
  proof (cases "Index s [c]")
    case None
    then have "c \<notin> set s" by (rule Index_single_None)
    then have "filter (\<lambda>x. x \<noteq> c) s = s" by (simp add: filter_absent)
    with None 1 show ?thesis by (simp add: Replace.simps[of s])
  next
    case (Some i)
    from Index_single_Some[OF Some]
    have a: "c \<notin> set (take i s)" and b: "drop i s = c # drop (Suc i) s" by auto
    have "s = take i s @ drop i s" by simp
    then have "filter (\<lambda>x. x \<noteq> c) s = filter (\<lambda>x. x \<noteq> c) (take i s) @ filter (\<lambda>x. x \<noteq> c) (drop i s)"
      by (metis filter_append)
    also have "filter (\<lambda>x. x \<noteq> c) (take i s) = take i s" using a by (simp add: filter_absent)
    also have "filter (\<lambda>x. x \<noteq> c) (drop i s) = filter (\<lambda>x. x \<noteq> c) (drop (Suc i) s)"
      by (subst b) simp
    finally have f: "filter (\<lambda>x. x \<noteq> c) s = take i s @ filter (\<lambda>x. x \<noteq> c) (drop (Suc i) s)" .
    from 1 Some have "Replace (drop (i + length [c]) s) [c] [] (n - 1) = filter (\<lambda>x. x \<noteq> c) (drop (i + length [c]) s)"
      by simp
    with Some 1 f show ?thesis by (simp add: Replace.simps[of s])
  qed
qed

lemma Replace_subst:
  "n < 0 \<Longrightarrow> Replace s [c] [d] n = map (\<lambda>x. if x = c then d else x) s"
proof (induction s "[c]" "[d]" n rule: Replace.induct)
  case (1 s n)
  show ?case
  proof (cases "c = d")
    case True
    then show ?thesis by (simp add: Replace.simps[of s] map_idI)
  next
    case cd: False
  show ?thesis
  proof (cases "Index s [c]")
    case None
    then have "c \<notin> set s" by (rule Index_single_None)
    then have "map (\<lambda>x. if x = c then d else x) s = s" by (simp add: map_absent)
    with None 1 show ?thesis by (simp add: Replace.simps[of s])
  next
    case (Some i)
    from Index_single_Some[OF Some]
    have a: "c \<notin> set (take i s)" and b: "drop i s = c # drop (Suc i) s" by auto
    let ?f = "\<lambda>x. if x = c then d else x"
    have "s = take i s @ drop i s" by simp
    then have "map ?f s = map ?f (take i s) @ map ?f (drop i s)"
      by (metis map_append)
    also have "map ?f (take i s) = take i s" using a by (simp add: map_absent)
    also have "map ?f (drop i s) = d # map ?f (drop (Suc i) s)"
      by (subst b) simp
    finally have f: "map ?f s = take i s @ d # map ?f (drop (Suc i) s)" .
    from 1 Some cd have "Replace (drop (i + length [c]) s) [c] [d] (n - 1) = map ?f (drop (i + length [c]) s)"
      by simp
    with Some 1 f cd show ?thesis by (simp add: Replace.simps[of s])
  qed
  qed
qed

lemma prepass_stripCRTab:
  "Replace (Replace text [CHR 0x0D] [] (-1)) [CHR 0x09] '' '' (-1) = stripCRTab text"
  by (simp add: Replace_delete Replace_subst stripCRTab_def)

lemma greedy_iter_caps:
  assumes "\<And>x y. y \<in> set (step x) \<Longrightarrow> length (fst y) = length (fst x)"
  shows "y \<in> set (greedy_iter k step x) \<Longrightarrow> length (fst y) = length (fst x)"
proof (induction k arbitrary: x y)
  case 0 then show ?case by simp
next
  case (Suc k)
  from Suc.prems consider "y = x"
    | z where "z \<in> set (step x)" "y \<in> set (greedy_iter k step z)"
    by auto
  then show ?case
  proof cases
    case 1 then show ?thesis by simp
  next
    case 2
    with Suc.IH assms show ?thesis by metis
  qed
qed

lemma lazy_iter_caps:
  assumes "\<And>x y. y \<in> set (step x) \<Longrightarrow> length (fst y) = length (fst x)"
  shows "y \<in> set (lazy_iter k step x) \<Longrightarrow> length (fst y) = length (fst x)"
proof (induction k arbitrary: x y)
  case 0 then show ?case by simp
next
  case (Suc k)
  from Suc.prems consider "y = x"
    | z where "z \<in> set (step x)" "y \<in> set (lazy_iter k step z)"
    by auto
  then show ?case
  proof cases
    case 1 then show ?thesis by simp
  next
    case 2
    with Suc.IH assms show ?thesis by metis
  qed
qed

lemma rmatch_caps: "y \<in> set (rmatch r x) \<Longrightarrow> length (fst y) = length (fst x)"
proof (induction r arbitrary: x y)
  case (Lit l) then show ?case by (auto split: if_splits)
next
  case (LitI l) then show ?case by (auto split: if_splits)
next
  case (Cls p) then show ?case by (auto split: if_splits list.splits)
next
  case (Seq a b)
  from Seq.prems obtain z where "z \<in> set (rmatch a x)" "y \<in> set (rmatch b z)" by auto
  with Seq.IH show ?case by metis
next
  case (Alt a b)
  from Alt.prems have "y \<in> set (rmatch a x) \<or> y \<in> set (rmatch b x)" by simp
  with Alt.IH show ?case by blast
next
  case (Opt a)
  from Opt.prems have "y \<in> set (rmatch a x) \<or> y = x" by auto
  with Opt.IH show ?case by blast
next
  case (Star a)
  from Star.prems have "y \<in> set (greedy_iter (length (snd x)) (rmatch a) x)" by simp
  then show ?case using Star.IH by (rule greedy_iter_caps[rotated])
next
  case (Plus a)
  from Plus.prems obtain z where z: "z \<in> set (rmatch a x)"
    "y \<in> set (greedy_iter (length (snd z)) (rmatch a) z)" by auto
  from z(2) have "length (fst y) = length (fst z)" using Plus.IH by (rule greedy_iter_caps[rotated])
  with z(1) Plus.IH show ?case by metis
next
  case (PlusLazy a)
  from PlusLazy.prems obtain z where z: "z \<in> set (rmatch a x)"
    "y \<in> set (lazy_iter (length (snd z)) (rmatch a) z)" by auto
  from z(2) have "length (fst y) = length (fst z)" using PlusLazy.IH by (rule lazy_iter_caps[rotated])
  with z(1) PlusLazy.IH show ?case by metis
next
  case (Grp n a)
  from Grp.prems obtain z where "z \<in> set (rmatch a x)"
    "y = ((fst z)[n := take (length (snd x) - length (snd z)) (snd x)], snd z)" by auto
  with Grp.IH show ?case by simp
qed

lemma find_from_caps:
  "find_from r i s = Some (j, caps, rest) \<Longrightarrow> length caps = Suc (numSubexp r)"
proof (induction s arbitrary: i)
  case Nil
  then obtain ys where "rmatch (Grp 0 r) (replicate (Suc (numSubexp r)) [], []) = (caps, rest) # ys"
    by (auto split: list.splits)
  then have "(caps, rest) \<in> set (rmatch (Grp 0 r) (replicate (Suc (numSubexp r)) [], []))"
    by simp
  from rmatch_caps[OF this] show ?case by simp
next
  case (Cons c cs)
  show ?case
  proof (cases "rmatch (Grp 0 r) (replicate (Suc (numSubexp r)) [], c # cs)")
    case Nil
    with Cons show ?thesis by simp
  next
    case (Cons y ys)
    with Cons.prems have "y = (caps, rest)" by simp
    with Cons have "(caps, rest) \<in> set (rmatch (Grp 0 r) (replicate (Suc (numSubexp r)) [], c # cs))"
      by simp
    from rmatch_caps[OF this] show ?thesis by simp
  qed
qed

lemma FindStringSubmatch_length:
  "FindStringSubmatch r s = [] \<or> length (FindStringSubmatch r s) = Suc (numSubexp r)"
  by (auto simp: FindStringSubmatch_def find_from_caps split: option.splits)

lemma numSubexp_searchDomain: "numSubexp searchDomain = 3"
  by (simp add: searchDomain_def labelChar_def tldChar_def foldRunes_def ws_def)

lemma Prepare_detect:
  "Prepare Keys text =
     (case detectTLD (stripCRTab text) of
        None \<Rightarrow> Some (stripCRTab text)
      | Some tld \<Rightarrow> dispatch Keys tld (stripCRTab text))"
proof -
  let ?t = "stripCRTab text"
  let ?m = "FindStringSubmatch searchDomain ?t"
  have P: "Prepare Keys text =
     (if length ?m > 0 then Option.bind (idx ?m 3) (\<lambda>m3. dispatch Keys (ToLower m3) ?t)
      else Some ?t)"
    by (simp add: Prepare_def prepass_stripCRTab Let_def)
  show ?thesis
  proof (cases ?m)
    case Nil
    with P show ?thesis by (simp add: detectTLD_def)
  next
    case (Cons m0 ms)
    with FindStringSubmatch_length[of searchDomain ?t]
    have "length ?m = 4" by (simp add: numSubexp_searchDomain)
    then have "idx ?m 3 = Some (?m ! 3)" by (simp add: idx_def)
    with P Cons show ?thesis by (simp add: detectTLD_def)
  qed
qed

lemma dispatch_other: "tld \<notin> set dialects \<Longrightarrow> dispatch Keys tld text = Some text"
  by (simp add: dispatch_def dialects_def)









text \<open>
  C2: when the detector finds no domain line in the text, or finds a label that is none
  of the labels of the switch, Prepare returns the input with the carriage returns
  removed and every tab replaced by a space, and nothing else changed.
\<close>

theorem C2_unsupported_passthrough:
  assumes "detectTLD (stripCRTab text) = None
           \<or> (\<exists>tld. detectTLD (stripCRTab text) = Some tld \<and> tld \<notin> set dialects)"
  shows "Prepare Keys text = Some (stripCRTab text)"
  using assms by (auto simp: Prepare_detect dispatch_other)

theorem C2_unsupported_passthrough_witness:
  "detectTLD (stripCRTab (''Domain Name:'' @ [CHR 0x09] @ ''EXAMPLE.COM'' @ [CHR 0x0D, CHR 0x0A]
        @ ''Registrant:'' @ [CHR 0x0D, CHR 0x0A] @ ''Foo'')) = Some ''com''
   \<and> ''com'' \<notin> set dialects
   \<and> Prepare KeysSorted (''Domain Name:'' @ [CHR 0x09] @ ''EXAMPLE.COM'' @ [CHR 0x0D, CHR 0x0A]
        @ ''Registrant:'' @ [CHR 0x0D, CHR 0x0A] @ ''Foo'')
     = Some ''Domain Name: EXAMPLE.COM\<newline>Registrant:\<newline>Foo''
   \<and> detectTLD (stripCRTab (''No match for'' @ [CHR 0x09] @ ''example.edu'')) = None
   \<and> Prepare KeysSorted (''No match for'' @ [CHR 0x09] @ ''example.edu'')
     = Some ''No match for example.edu''"
proof -
  let ?t1 = "''Domain Name:'' @ [CHR 0x09] @ ''EXAMPLE.COM'' @ [CHR 0x0D, CHR 0x0A]
        @ ''Registrant:'' @ [CHR 0x0D, CHR 0x0A] @ ''Foo''"
  let ?t2 = "''No match for'' @ [CHR 0x09] @ ''example.edu''"
  have a: "detectTLD (stripCRTab ?t1) = Some ''com''" by code_simp
  have b: "''com'' \<notin> set dialects" by code_simp
  have c: "stripCRTab ?t1 = ''Domain Name: EXAMPLE.COM\<newline>Registrant:\<newline>Foo''" by code_simp
  have d: "detectTLD (stripCRTab ?t2) = None" by code_simp
  have e: "stripCRTab ?t2 = ''No match for example.edu''" by code_simp
  from a b have "detectTLD (stripCRTab ?t1) = None
      \<or> (\<exists>tld. detectTLD (stripCRTab ?t1) = Some tld \<and> tld \<notin> set dialects)" by blast
  from C2_unsupported_passthrough[OF this, of KeysSorted] c
  have 1: "Prepare KeysSorted ?t1 = Some ''Domain Name: EXAMPLE.COM\<newline>Registrant:\<newline>Foo''"
    by simp
  from d have "detectTLD (stripCRTab ?t2) = None
      \<or> (\<exists>tld. detectTLD (stripCRTab ?t2) = Some tld \<and> tld \<notin> set dialects)" by blast
  from C2_unsupported_passthrough[OF this, of KeysSorted] e
  have 2: "Prepare KeysSorted ?t2 = Some ''No match for example.edu''"
    by simp
  from a b 1 d 2 show ?thesis by blast
qed




section \<open>How the output of a transformer begins\<close>

lemma startsNL_Nil: "startsNL []" by (simp add: startsNL_def)

lemma startsNL_emit: "startsNL r \<Longrightarrow> startsNL (r @ CHR 0x0A # x)"
  by (auto simp: startsNL_def hd_append)

lemma startsNL_join: "startsNL r \<Longrightarrow> r \<noteq> [] \<Longrightarrow> startsNL (r @ x)"
  by (auto simp: startsNL_def hd_append)

lemma for_range_inv:
  assumes step: "\<And>s v s'. I s \<Longrightarrow> body s v = Some s' \<Longrightarrow> I s'"
  shows "I s0 \<Longrightarrow> for_range body s0 xs = Some s' \<Longrightarrow> I s'"
proof (induction xs arbitrary: s0)
  case Nil then show ?case by simp
next
  case (Cons v vs)
  from Cons.prems(2) obtain s1 where s1: "body s0 v = Some s1" "for_range body s1 vs = Some s'"
    by (auto split: option.splits)
  from step[OF Cons.prems(1) s1(1)] have "I s1" .
  from Cons.IH[OF this s1(2)] show ?case .
qed

lemma bodyEDU_inv:
  "startsNL (snd (snd s)) \<Longrightarrow> bodyEDU s v = Some s' \<Longrightarrow> startsNL (snd (snd s'))"
  by (cases s) (auto simp: Let_def startsNL_emit split: if_splits prod.splits Option.bind_splits)

lemma prepareEDU_nl: "prepareEDU text = Some out \<Longrightarrow> startsNL out"
proof -
  assume "prepareEDU text = Some out"
  then obtain t i where "for_range bodyEDU ([], 0, []) (Split text ''\<newline>'') = Some (t, i, out)"
    by (auto simp: prepareEDU_def)
  from for_range_inv[where I="\<lambda>s. startsNL (snd (snd s))", OF bodyEDU_inv _ this]
  show ?thesis by (simp add: startsNL_Nil)
qed

lemma bodyTW_inv:
  "startsNL (snd (snd s)) \<Longrightarrow> bodyTW s v = Some s' \<Longrightarrow> startsNL (snd (snd s'))"
  by (cases s) (auto simp: Let_def startsNL_emit split: if_splits prod.splits Option.bind_splits)

lemma prepareTW_nl: "prepareTW text = Some out \<Longrightarrow> startsNL out"
proof -
  assume "prepareTW text = Some out"
  then obtain t i where "for_range bodyTW ([], -1, []) (Split text ''\<newline>'') = Some (t, i, out)"
    by (auto simp: prepareTW_def)
  from for_range_inv[where I="\<lambda>s. startsNL (snd (snd s))", OF bodyTW_inv _ this]
  show ?thesis by (simp add: startsNL_Nil)
qed

lemma bodyINT_inv:
  "startsNL (snd s) \<Longrightarrow> bodyINT s v = Some s' \<Longrightarrow> startsNL (snd s')"
  by (cases s) (auto simp: Let_def startsNL_emit split: if_splits prod.splits Option.bind_splits)

lemma prepareINT_nl: "prepareINT text = Some out \<Longrightarrow> startsNL out"
proof -
  assume "prepareINT text = Some out"
  then obtain t where "for_range bodyINT ([], []) (Split text ''\<newline>'') = Some (t, out)"
    by (auto simp: prepareINT_def)
  from for_range_inv[where I="\<lambda>s. startsNL (snd s)", OF bodyINT_inv _ this]
  show ?thesis by (simp add: startsNL_Nil)
qed

lemma bodyMO_inv:
  "startsNL (snd s) \<Longrightarrow> bodyMO s v = Some s' \<Longrightarrow> startsNL (snd s')"
  by (cases s) (auto simp: Let_def startsNL_emit split: if_splits prod.splits option.splits Option.bind_splits)

lemma prepareMO_nl: "prepareMO text = Some out \<Longrightarrow> startsNL out"
proof -
  assume "prepareMO text = Some out"
  then obtain t where "for_range bodyMO ([], []) (Split text ''\<newline>'') = Some (t, out)"
    by (auto simp: prepareMO_def)
  from for_range_inv[where I="\<lambda>s. startsNL (snd s)", OF bodyMO_inv _ this]
  show ?thesis by (simp add: startsNL_Nil)
qed

lemma emitIT_nl: "startsNL r \<Longrightarrow> startsNL (emitIT t r v) \<and> emitIT t r v \<noteq> []"
  by (simp add: emitIT_def startsNL_emit)

lemma bodyIT_inv:
  assumes "startsNL (snd (snd s)) \<and> (fst (snd s) \<noteq> [] \<longrightarrow> snd (snd s) \<noteq> [])"
      and "bodyIT s v = Some s'"
  shows "startsNL (snd (snd s')) \<and> (fst (snd s') \<noteq> [] \<longrightarrow> snd (snd s') \<noteq> [])"
  using assms
  by (cases s) (auto simp: Let_def emitIT_nl startsNL_join split: if_splits Option.bind_splits)

lemma prepareIT_nl: "prepareIT text = Some out \<Longrightarrow> startsNL out"
proof -
  assume "prepareIT text = Some out"
  then obtain t i where "for_range bodyIT ([], [], []) (Split text ''\<newline>'') = Some (t, i, out)"
    by (auto simp: prepareIT_def)
  from for_range_inv[where I="\<lambda>s. startsNL (snd (snd s)) \<and> (fst (snd s) \<noteq> [] \<longrightarrow> snd (snd s) \<noteq> [])",
      OF bodyIT_inv _ this]
  show ?thesis by (simp add: startsNL_Nil)
qed

lemma bodyJP_inv:
  assumes "startsNL (snd (snd s)) \<and> (fst s = addressToken \<longrightarrow> snd (snd s) \<noteq> [])"
      and "bodyJP s v = Some s'"
  shows "startsNL (snd (snd s')) \<and> (fst s' = addressToken \<longrightarrow> snd (snd s') \<noteq> [])"
  using assms
  by (cases s) (auto simp: Let_def startsNL_emit startsNL_join split: if_splits Option.bind_splits)

lemma prepareJP_nl: "prepareJP text = Some out \<Longrightarrow> startsNL out"
proof -
  assume "prepareJP text = Some out"
  then obtain t i ls where "for_range bodyJP ([], [], []) ls = Some (t, i, out)"
    by (auto simp: prepareJP_def Let_def)
  from for_range_inv[where I="\<lambda>s. startsNL (snd (snd s)) \<and> (fst s = addressToken \<longrightarrow> snd (snd s) \<noteq> [])",
      OF bodyJP_inv _ this]
  show ?thesis by (simp add: startsNL_Nil addressToken_def)
qed

lemma bodyFR_inv:
  "startsNL (snd (snd (snd s))) \<Longrightarrow> bodyFR Keys s v = Some s' \<Longrightarrow> startsNL (snd (snd (snd s')))"
  by (cases s) (auto simp: Let_def startsNL_emit split: if_splits prod.splits Option.bind_splits)

lemma prepareFR_nl: "prepareFR Keys text = Some out \<Longrightarrow> startsNL out"
proof -
  assume "prepareFR Keys text = Some out"
  then obtain t nb h where
    "for_range (bodyFR Keys) ([], False, Map.empty, []) (Split text ''\<newline>'') = Some (t, nb, h, out)"
    by (auto simp: prepareFR_def)
  from for_range_inv[where I="\<lambda>s. startsNL (snd (snd (snd s)))", OF bodyFR_inv _ this]
  show ?thesis by (simp add: startsNL_Nil)
qed

lemma bodyUK_inv: "startsNL r \<Longrightarrow> bodyUK r v = Some r' \<Longrightarrow> startsNL r'"
  by (auto simp: bodyUK_def Let_def startsNL_emit split: if_splits Option.bind_splits)

lemma prepareUK_nl: "prepareUK text = Some out \<Longrightarrow> startsNL out"
proof -
  assume "prepareUK text = Some out"
  then have "for_range bodyUK [] (Split text ''\<newline>'') = Some out"
    by (simp add: prepareUK_def)
  from for_range_inv[where I=startsNL and body=bodyUK, OF bodyUK_inv startsNL_Nil this]
  show ?thesis .
qed

lemma bodyKR_inv: "startsNL r \<Longrightarrow> bodyKR r v = Some r' \<Longrightarrow> startsNL r'"
  by (auto simp: bodyKR_def Let_def startsNL_emit split: if_splits Option.bind_splits)

lemma prepareKR_nl: "prepareKR text = Some out \<Longrightarrow> startsNL out"
proof -
  assume "prepareKR text = Some out"
  then obtain ls where "for_range bodyKR [] ls = Some out"
    by (simp add: prepareKR_def Let_def)
  from for_range_inv[where I=startsNL and body=bodyKR, OF bodyKR_inv startsNL_Nil this]
  show ?thesis .
qed

lemma trimPrefixes_fixed:
  "find (\<lambda>p. p \<noteq> [] \<and> HasPrefix (trimPrefixes ps s) p) ps = None"
proof (induction ps s rule: trimPrefixes.induct)
  case (1 ps s)
  show ?case
  proof (cases "find (\<lambda>p. p \<noteq> [] \<and> HasPrefix s p) ps")
    case None
    then show ?thesis by (simp add: trimPrefixes.simps[of ps s])
  next
    case (Some p)
    with 1 show ?thesis by (simp add: trimPrefixes.simps[of ps s])
  qed
qed

lemma trimPrefixes_drop: "\<exists>n. trimPrefixes ps s = drop n s"
proof (induction ps s rule: trimPrefixes.induct)
  case (1 ps s)
  show ?case
  proof (cases "find (\<lambda>p. p \<noteq> [] \<and> HasPrefix s p) ps")
    case None
    then have "trimPrefixes ps s = drop 0 s" by (simp add: trimPrefixes.simps[of ps s])
    then show ?thesis by blast
  next
    case (Some p)
    with 1 obtain n where "trimPrefixes ps (drop (length p) s) = drop n (drop (length p) s)"
      by blast
    with Some have "trimPrefixes ps s = drop (n + length p) s"
      by (simp add: trimPrefixes.simps[of ps s] add.commute)
    then show ?thesis by blast
  qed
qed

lemma TrimSpace_hd:
  assumes "TrimSpace s \<noteq> []"
  shows "hd (TrimSpace s) \<noteq> CHR 0x0A"
proof -
  let ?r = "trimPrefixes spaceRunes s"
  obtain n where n: "trimPrefixes (map rev spaceRunes) (rev ?r) = drop n (rev ?r)"
    using trimPrefixes_drop by blast
  have T: "TrimSpace s = take (length ?r - n) ?r"
    by (simp add: TrimSpace_def n rev_drop)
  with assms have ne: "?r \<noteq> []" "0 < length ?r - n" by auto
  then have h: "hd (TrimSpace s) = hd ?r" by (simp add: T hd_take)
  have "[CHR 0x0A] \<in> set spaceRunes" by (simp add: spaceRunes_def)
  with trimPrefixes_fixed[of spaceRunes s] have "\<not> HasPrefix ?r [CHR 0x0A]"
    by (auto simp: find_None_iff)
  with ne(1) have "hd ?r \<noteq> CHR 0x0A"
    by (cases ?r) (auto simp: HasPrefix_def)
  with h show ?thesis by simp
qed

lemma endsNL_line: "endsNL r \<Longrightarrow> x \<noteq> [] \<Longrightarrow> hd x \<noteq> CHR 0x0A \<Longrightarrow> endsNL (r @ x @ [CHR 0x0A])"
  by (auto simp: endsNL_def hd_append)

lemma tokensRU_hd: "tokensRU k = Some vv \<Longrightarrow> vv \<noteq> [] \<and> hd vv \<noteq> CHR 0x0A"
  by (auto simp: tokensRU_def split: if_splits)

lemma bodyRU_inv: "endsNL r \<Longrightarrow> bodyRU r v = Some r' \<Longrightarrow> endsNL r'"
proof -
  assume r: "endsNL r" and b: "bodyRU r v = Some r'"
  show ?thesis
  proof (cases "TrimSpace v = [] \<or> \<not> Contains (TrimSpace v) '':''")
    case True
    with b r show ?thesis by (auto simp: bodyRU_def Let_def split: if_splits)
  next
    case False
    then have ne: "TrimSpace v \<noteq> []" by simp
    from b False obtain vs0 where vs0: "idx (Split (TrimSpace v) '':'') 0 = Some vs0"
      by (auto simp: bodyRU_def Let_def split: Option.bind_splits)
    show ?thesis
    proof (cases "tokensRU (TrimSpace vs0)")
      case None
      with b False vs0 have "r' = r @ TrimSpace v @ [CHR 0x0A]"
        by (auto simp: bodyRU_def Let_def)
      with endsNL_line[OF r ne TrimSpace_hd[OF ne]] show ?thesis by simp
    next
      case (Some vv)
      with b False vs0 obtain vs1 where r': "r' = r @ (vv @ '': '' @ vs1) @ [CHR 0x0A]"
        by (auto simp: bodyRU_def Let_def split: Option.bind_splits)
      from tokensRU_hd[OF Some] have x: "vv @ '': '' @ vs1 \<noteq> []" "hd (vv @ '': '' @ vs1) \<noteq> CHR 0x0A"
        by (auto simp: hd_append)
      from endsNL_line[OF r x] show ?thesis unfolding r' .
    qed
  qed
qed

lemma prepareRU_nl: "prepareRU text = Some out \<Longrightarrow> endsNL out"
proof -
  assume "prepareRU text = Some out"
  then have "for_range bodyRU [] (Split text ''\<newline>'') = Some out"
    by (simp add: prepareRU_def)
  from for_range_inv[where I=endsNL and body=bodyRU, OF bodyRU_inv _ this]
  show ?thesis by (simp add: endsNL_def)
qed

lemma dispatch_nl:
  assumes "tld \<in> set [''edu'', ''int'', ''mo'', ''tw'', ''it'', ''fr'', ''re'', ''tf'', ''yt'',
                        ''pm'', ''wf'', ''jp'', ''uk'', ''kr'']"
      and "dispatch Keys tld text = Some out"
  shows "startsNL out"
  using assms
  by (auto simp: dispatch_def
           dest: prepareEDU_nl prepareINT_nl prepareMO_nl prepareTW_nl prepareIT_nl prepareFR_nl
                 prepareJP_nl prepareUK_nl prepareKR_nl)

lemma dispatch_ru:
  assumes "tld \<in> set [''ru'', ''su'']" and "dispatch Keys tld text = Some out"
  shows "endsNL out"
  using assms by (auto simp: dispatch_def dest: prepareRU_nl)

text \<open>
  C10 (as stated): every dialect transformer other than RU and CH returns a text that
  begins with a newline when it emits a line. The HK transformer does not: the value of
  a \<open>Family name\<close> line is appended to the text so far after a space, and when that line
  comes first the output begins with the space.
\<close>

theorem C10_hk_counterexample:
  "detectTLD (stripCRTab ''Family name: Chan\<newline>Domain Name: example.hk'') = Some ''hk''
   \<and> Prepare KeysSorted ''Family name: Chan\<newline>Domain Name: example.hk''
     = Some '' Chan\<newline>Domain Name: example.hk''"
  by code_simp

text \<open>
  C10 (amended): for every input routed to a dialect transformer other than RU, CH and
  HK (that is EDU, INT, MO, TW, IT, FR, JP, UK or KR), a returned text that is not empty
  begins with a newline; for every input routed to the RU transformer, a returned text
  that is not empty ends with a newline and does not begin with one.
\<close>

theorem C10_leading_newline:
  "(detectTLD (stripCRTab text) = Some tld \<and>
    tld \<in> set [''edu'', ''int'', ''mo'', ''tw'', ''it'', ''fr'', ''re'', ''tf'', ''yt'', ''pm'',
               ''wf'', ''jp'', ''uk'', ''kr''] \<and>
    Prepare Keys text = Some out \<and> out \<noteq> [] \<longrightarrow> hd out = CHR 0x0A)
   \<and> (detectTLD (stripCRTab text) = Some tld \<and> tld \<in> set [''ru'', ''su''] \<and>
      Prepare Keys text = Some out \<and> out \<noteq> [] \<longrightarrow> last out = CHR 0x0A \<and> hd out \<noteq> CHR 0x0A)"
proof (intro conjI impI)
  assume a: "detectTLD (stripCRTab text) = Some tld \<and>
    tld \<in> set [''edu'', ''int'', ''mo'', ''tw'', ''it'', ''fr'', ''re'', ''tf'', ''yt'', ''pm'',
               ''wf'', ''jp'', ''uk'', ''kr''] \<and>
    Prepare Keys text = Some out \<and> out \<noteq> []"
  then have "dispatch Keys tld (stripCRTab text) = Some out" by (auto simp: Prepare_detect)
  with a dispatch_nl have "startsNL out" by blast
  with a show "hd out = CHR 0x0A" by (simp add: startsNL_def)
next
  assume a: "detectTLD (stripCRTab text) = Some tld \<and> tld \<in> set [''ru'', ''su''] \<and>
      Prepare Keys text = Some out \<and> out \<noteq> []"
  then have "dispatch Keys tld (stripCRTab text) = Some out" by (auto simp: Prepare_detect)
  with a dispatch_ru have e: "endsNL out" by blast
  with a show "last out = CHR 0x0A" by (simp add: endsNL_def)
  from e a show "hd out \<noteq> CHR 0x0A" by (simp add: endsNL_def)
qed

theorem C10_leading_newline_witness:
  "detectTLD (stripCRTab ''Domain name: example.uk\<newline>URL: http://example.uk'') = Some ''uk''
   \<and> Prepare KeysSorted ''Domain name: example.uk\<newline>URL: http://example.uk''
     = Some ''\<newline>Domain name: example.uk\<newline>Registrar URL:  http://example.uk''
   \<and> hd ''\<newline>Domain name: example.uk\<newline>Registrar URL:  http://example.uk'' = CHR 0x0A
   \<and> detectTLD (stripCRTab ''domain: EXAMPLE.SU\<newline>org: Foo'') = Some ''su''
   \<and> Prepare KeysSorted ''domain: EXAMPLE.SU\<newline>org: Foo''
     = Some ''domain: EXAMPLE.SU\<newline>Registrant Organization:  Foo\<newline>''
   \<and> last ''domain: EXAMPLE.SU\<newline>Registrant Organization:  Foo\<newline>'' = CHR 0x0A
   \<and> hd ''domain: EXAMPLE.SU\<newline>Registrant Organization:  Foo\<newline>'' \<noteq> CHR 0x0A"
proof -
  let ?t1 = "''Domain name: example.uk\<newline>URL: http://example.uk''"
  let ?o1 = "''\<newline>Domain name: example.uk\<newline>Registrar URL:  http://example.uk''"
  let ?t2 = "''domain: EXAMPLE.SU\<newline>org: Foo''"
  let ?o2 = "''domain: EXAMPLE.SU\<newline>Registrant Organization:  Foo\<newline>''"
  have a1: "detectTLD (stripCRTab ?t1) = Some ''uk''" by code_simp
  have b1: "Prepare KeysSorted ?t1 = Some ?o1" by code_simp
  have a2: "detectTLD (stripCRTab ?t2) = Some ''su''" by code_simp
  have b2: "Prepare KeysSorted ?t2 = Some ?o2" by code_simp
  from C10_leading_newline[of ?t1 "''uk''" KeysSorted ?o1] a1 b1
  have 1: "hd ?o1 = CHR 0x0A" by simp
  from C10_leading_newline[of ?t2 "''su''" KeysSorted ?o2] a2 b2
  have 2: "last ?o2 = CHR 0x0A \<and> hd ?o2 \<noteq> CHR 0x0A" by simp
  from a1 b1 1 a2 b2 2 show ?thesis by blast
qed

section \<open>The handle correlation of prepareFR\<close>














end
